theory Spec2Isabelle
  imports Main "HOL-Library.AList"
begin

section \<open>Data model\<close>

text \<open>
  The repository holds two variants of one Discord bot: \<^verbatim>\<open>gamified_bot.py\<close> (the bot with
  SQLite persistence, logging, per-user error handling and rate-limit retries) and
  \<^verbatim>\<open>demo.py\<close> (the same commands without them). Definitions without a prefix embed
  \<^verbatim>\<open>gamified_bot.py\<close>; definitions with the prefix \<open>demo_\<close> embed \<^verbatim>\<open>demo.py\<close>.

  Timestamps (\<^verbatim>\<open>datetime\<close> values in UTC) are integers: microseconds since the Unix epoch,
  the resolution of \<^verbatim>\<open>datetime\<close> and \<^verbatim>\<open>timedelta\<close>. Python's integers are unbounded, so
  \<^verbatim>\<open>points\<close> is an \<open>int\<close>; counts (\<^verbatim>\<open>totalCount\<close>, \<^verbatim>\<open>len\<close>) are naturals.
\<close>

type_synonym time = int

text \<open>One value of the dictionary \<^verbatim>\<open>self.user_data\<close>, with the source's keys.\<close>

record user_rec =
  github_user :: string
  points :: int
  badges :: "string list"
  current_challenge :: "string option"
  last_activity_check :: time

text \<open>
  What the bot reads from the GitHub client. An exception raised by a call is the \<open>Inl\<close>
  branch of its result. \<open>AttributeError\<close> is what Python raises for \<^verbatim>\<open>self.repo.get_commits\<close>
  while \<^verbatim>\<open>self.repo\<close> is \<^verbatim>\<open>None\<close>; \<open>ApiError\<close> carries \<^verbatim>\<open>str(e)\<close> of any other exception.
\<close>

datatype exn = AttributeError | ApiError string

record review =
  review_login :: string
  submitted_at :: time

record issue_comment =
  comment_login :: string

datatype pull = Pull (get_reviews: "exn + review list")

text \<open>
  \<open>get_commits api author since\<close> is \<^verbatim>\<open>repo.get_commits(author=..., since=...).totalCount\<close>,
  \<open>get_issues_comments api since\<close> the list \<^verbatim>\<open>repo.get_issues_comments(since=...)\<close>, and
  \<open>get_pulls api\<close> the list \<^verbatim>\<open>repo.get_pulls(state='all', sort='updated', direction='desc')\<close>.
  Which commits and comments the service returns for a given \<^verbatim>\<open>since\<close> is decided by the
  service, not by this program, so these are parameters.
\<close>

record github_api =
  get_commits :: "string \<Rightarrow> time \<Rightarrow> exn + nat"
  get_issues_comments :: "time \<Rightarrow> exn + issue_comment list"
  get_pulls :: "exn + pull list"

text \<open>
  The bot object: \<^verbatim>\<open>self.repo\<close> (the name of the repository, \<open>None\<close> until \<^verbatim>\<open>!set_repo\<close>
  succeeds), \<^verbatim>\<open>self.user_data\<close> (a dictionary: an association list in insertion order, keyed
  by Discord id), \<^verbatim>\<open>self.last_global_check\<close>, and the table \<^verbatim>\<open>users\<close> of \<^verbatim>\<open>user_data.db\<close>,
  keyed by Discord id. A row stores the fields of a \<open>user_rec\<close> (the JSON and ISO-8601
  encodings of the badge list and the timestamp are not modelled).
\<close>

record bot =
  repo :: "string option"
  user_data :: "(nat \<times> user_rec) list"
  last_global_check :: time
  db :: "nat \<rightharpoonup> user_rec"

section \<open>Badges\<close>

definition BRONZE :: string where "BRONZE = ''Bronze Collaborator''"
definition SILVER :: string where "SILVER = ''Silver Collaborator''"
definition GOLD :: string where "GOLD = ''Gold Collaborator''"

text \<open>
  \<^verbatim>\<open>update_badges\<close> (gamified\_bot.py 288--296, demo.py 178--186): three independent
  \<^verbatim>\<open>if\<close> statements, each appending to the list that the previous one may have extended.
\<close>

definition update_badges :: "user_rec \<Rightarrow> user_rec" where
  "update_badges d =
     (let pts = points d;
          b0 = badges d;
          b1 = (if pts \<ge> 10 \<and> BRONZE \<notin> set b0 then b0 @ [BRONZE] else b0);
          b2 = (if pts \<ge> 50 \<and> SILVER \<notin> set b1 then b1 @ [SILVER] else b1);
          b3 = (if pts \<ge> 100 \<and> GOLD \<notin> set b2 then b2 @ [GOLD] else b2)
      in d\<lparr>badges := b3\<rparr>)"

section \<open>Scoring one user\<close>

text \<open>Python's truth value of \<^verbatim>\<open>data['current_challenge']\<close>: \<^verbatim>\<open>None\<close> and \<^verbatim>\<open>''\<close> are false.\<close>

definition truthy :: "string option \<Rightarrow> bool" where
  "truthy c = (case c of None \<Rightarrow> False | Some t \<Rightarrow> t \<noteq> [])"

text \<open>The list comprehension \<^verbatim>\<open>[c for c in comments if c.user.login == gh_user]\<close>.\<close>

definition user_comments :: "string \<Rightarrow> issue_comment list \<Rightarrow> issue_comment list" where
  "user_comments gh_user comments = filter (\<lambda>c. comment_login c = gh_user) comments"

text \<open>
  The list comprehension
  \<^verbatim>\<open>[r for r in reviews if r.user.login == gh_user and r.submitted_at > last_check]\<close>.
\<close>

definition user_reviews :: "string \<Rightarrow> time \<Rightarrow> review list \<Rightarrow> review list" where
  "user_reviews gh_user last_check reviews =
     filter (\<lambda>r. review_login r = gh_user \<and> submitted_at r > last_check) reviews"

text \<open>
  The loop \<^verbatim>\<open>for pr in prs[:10]\<close> with the running value of \<^verbatim>\<open>new_points\<close>; an exception
  of \<^verbatim>\<open>pr.get_reviews()\<close> leaves the loop.
\<close>

fun review_points :: "string \<Rightarrow> time \<Rightarrow> pull list \<Rightarrow> nat \<Rightarrow> exn + nat" where
  "review_points gh_user last_check [] new_points = Inr new_points"
| "review_points gh_user last_check (pr # prs) new_points =
     (case get_reviews pr of
        Inl e \<Rightarrow> Inl e
      | Inr reviews \<Rightarrow>
          review_points gh_user last_check prs
            (new_points + length (user_reviews gh_user last_check reviews) * 15))"

text \<open>
  The fetching part of the loop body (gamified\_bot.py 206--220, demo.py 119--132): the value
  of \<^verbatim>\<open>new_points\<close> when every call returns, the exception otherwise. Nothing is written to
  \<^verbatim>\<open>data\<close> in these lines.
\<close>

definition fetch_new_points :: "github_api \<Rightarrow> string \<Rightarrow> time \<Rightarrow> exn + nat" where
  "fetch_new_points api gh_user last_check =
     (case get_commits api gh_user last_check of
        Inl e \<Rightarrow> Inl e
      | Inr total_count \<Rightarrow>
          (case get_issues_comments api last_check of
             Inl e \<Rightarrow> Inl e
           | Inr comments \<Rightarrow>
               (case get_pulls api of
                  Inl e \<Rightarrow> Inl e
                | Inr prs \<Rightarrow>
                    review_points gh_user last_check (take 10 prs)
                      (0 + total_count * 10 + length (user_comments gh_user comments) * 5))))"

text \<open>With \<^verbatim>\<open>self.repo\<close> still \<^verbatim>\<open>None\<close> the first call raises \<^verbatim>\<open>AttributeError\<close>.\<close>

definition poll_fetch :: "string option \<Rightarrow> github_api \<Rightarrow> user_rec \<Rightarrow> exn + nat" where
  "poll_fetch rp api data =
     (case rp of
        None \<Rightarrow> Inl AttributeError
      | Some _ \<Rightarrow> fetch_new_points api (github_user data) (last_activity_check data))"

text \<open>
  The writing part of the loop body (gamified\_bot.py 221--228, demo.py 133--140), in the
  order of the source: add the points, update the badges, then the challenge bonus, then
  the watermark.
\<close>

definition apply_new_points :: "time \<Rightarrow> user_rec \<Rightarrow> nat \<Rightarrow> user_rec" where
  "apply_new_points now data new_points =
     (let d1 = data\<lparr>points := points data + int new_points\<rparr>;
          d2 = update_badges d1;
          d3 = (if truthy (current_challenge d2) \<and> new_points > 0
                then d2\<lparr>points := points d2 + 20, current_challenge := None\<rparr>
                else d2)
      in d3\<lparr>last_activity_check := now\<rparr>)"

text \<open>
  The reviews for which the loop of \<open>review_points\<close> awards points, as a list: the reviews
  that pass the comprehension, over the pull requests the loop visits. A pull request
  whose reviews cannot be read contributes none (the loop stops there with the
  exception). This is a specification function, related to the code by lemma
  \<open>review_points_concat\<close>.
\<close>

definition observed_reviews :: "string \<Rightarrow> time \<Rightarrow> pull list \<Rightarrow> review list" where
  "observed_reviews gh_user last_check prs =
     concat (map (\<lambda>pr. case get_reviews pr of
                           Inl e \<Rightarrow> []
                         | Inr reviews \<Rightarrow> user_reviews gh_user last_check reviews)
                 (take 10 prs))"

text \<open>
  The user's dictionary after its iteration of the loop of gamified\_bot.py: untouched when
  the fetch raised, updated otherwise. (An auxiliary function for stating results about
  the pass; lemma \<open>poll_users_fst\<close> relates it to the loop.)
\<close>

definition polled :: "time \<Rightarrow> string option \<Rightarrow> github_api \<Rightarrow> user_rec \<Rightarrow> user_rec" where
  "polled now rp api data =
     (case poll_fetch rp api data of
        Inl e \<Rightarrow> data
      | Inr new_points \<Rightarrow> apply_new_points now data new_points)"

section \<open>Persistence\<close>

text \<open>
  \<^verbatim>\<open>save_user_data\<close> (gamified\_bot.py 86--99): \<^verbatim>\<open>INSERT OR REPLACE\<close> of the user's row. An
  exception of SQLite is caught and logged inside the function; \<open>ok = False\<close> is that case,
  and the table is then unchanged.
\<close>

definition save_user_data :: "bool \<Rightarrow> nat \<Rightarrow> user_rec \<Rightarrow> (nat \<rightharpoonup> user_rec) \<Rightarrow> (nat \<rightharpoonup> user_rec)" where
  "save_user_data ok discord_id data dbv = (if ok then dbv(discord_id \<mapsto> data) else dbv)"

section \<open>The reconciliation pass of gamified\_bot.py\<close>

text \<open>
  One iteration of the loop of \<^verbatim>\<open>poll_github_once\<close> (gamified\_bot.py 203--232). The
  \<^verbatim>\<open>except\<close> branch only logs, so the user's dictionary and row stay as they were.
  \<open>sqlite_ok disc_id\<close> tells whether the write of this user's row succeeds.
\<close>

definition poll_user ::
  "time \<Rightarrow> string option \<Rightarrow> github_api \<Rightarrow> (nat \<Rightarrow> bool) \<Rightarrow> nat \<Rightarrow> user_rec \<Rightarrow>
   (nat \<rightharpoonup> user_rec) \<Rightarrow> user_rec \<times> (nat \<rightharpoonup> user_rec)" where
  "poll_user now rp api sqlite_ok disc_id data dbv =
     (case poll_fetch rp api data of
        Inl e \<Rightarrow> (data, dbv)
      | Inr new_points \<Rightarrow>
          (let d = apply_new_points now data new_points
           in (d, save_user_data (sqlite_ok disc_id) disc_id d dbv)))"

text \<open>The loop \<^verbatim>\<open>for disc_id, data in self.user_data.items()\<close>.\<close>

fun poll_users ::
  "time \<Rightarrow> string option \<Rightarrow> github_api \<Rightarrow> (nat \<Rightarrow> bool) \<Rightarrow> (nat \<times> user_rec) list \<Rightarrow>
   (nat \<rightharpoonup> user_rec) \<Rightarrow> (nat \<times> user_rec) list \<times> (nat \<rightharpoonup> user_rec)" where
  "poll_users now rp api sqlite_ok [] dbv = ([], dbv)"
| "poll_users now rp api sqlite_ok ((disc_id, data) # rest) dbv =
     (case poll_user now rp api sqlite_ok disc_id data dbv of
        (data', dbv') \<Rightarrow>
          (case poll_users now rp api sqlite_ok rest dbv' of
             (rest', dbv'') \<Rightarrow> ((disc_id, data') # rest', dbv'')))"

text \<open>
  \<^verbatim>\<open>poll_github_once\<close> (gamified\_bot.py 200--234). \<open>now\<close> is the clock reading of line 202
  and \<open>api\<close> what GitHub answers during the pass; both come from outside the program.
\<close>

definition poll_github_once :: "time \<Rightarrow> github_api \<Rightarrow> (nat \<Rightarrow> bool) \<Rightarrow> bot \<Rightarrow> bot" where
  "poll_github_once now api sqlite_ok s =
     (case poll_users now (repo s) api sqlite_ok (user_data s) (db s) of
        (us, dbv) \<Rightarrow> s\<lparr>user_data := us, last_global_check := now, db := dbv\<rparr>)"

section \<open>The reconciliation pass of demo.py\<close>

text \<open>
  \<^verbatim>\<open>poll_github_once\<close> of demo.py (113--141) has no \<^verbatim>\<open>try\<close>: an exception of a fetch leaves
  the loop and the function. The users updated before it stay updated (their dictionaries
  were mutated in place), the others are not visited, and line 141 is not reached. The
  second component is the exception that left the function, if any.
\<close>

fun demo_poll_users ::
  "time \<Rightarrow> string option \<Rightarrow> github_api \<Rightarrow> (nat \<times> user_rec) list \<Rightarrow>
   (nat \<times> user_rec) list \<times> exn option" where
  "demo_poll_users now rp api [] = ([], None)"
| "demo_poll_users now rp api ((disc_id, data) # rest) =
     (case poll_fetch rp api data of
        Inl e \<Rightarrow> ((disc_id, data) # rest, Some e)
      | Inr new_points \<Rightarrow>
          (case demo_poll_users now rp api rest of
             (rest', r) \<Rightarrow> ((disc_id, apply_new_points now data new_points) # rest', r)))"

definition demo_poll_github_once :: "time \<Rightarrow> github_api \<Rightarrow> bot \<Rightarrow> bot \<times> exn option" where
  "demo_poll_github_once now api s =
     (case demo_poll_users now (repo s) api (user_data s) of
        (us, None) \<Rightarrow> (s\<lparr>user_data := us, last_global_check := now\<rparr>, None)
      | (us, Some e) \<Rightarrow> (s\<lparr>user_data := us\<rparr>, Some e))"

section \<open>Passes one after another\<close>

text \<open>
  \<^verbatim>\<open>poll_github_periodic\<close> (gamified\_bot.py 236--241) and \<^verbatim>\<open>!update_stats\<close> call
  \<^verbatim>\<open>poll_github_once\<close> again and again. A run of passes is the list of what each pass gets
  from outside: its clock reading, the answers of GitHub and the outcome of the writes.
\<close>

fun run_passes :: "(time \<times> github_api \<times> (nat \<Rightarrow> bool)) list \<Rightarrow> bot \<Rightarrow> bot" where
  "run_passes [] s = s"
| "run_passes ((now, api, sqlite_ok) # ps) s = run_passes ps (poll_github_once now api sqlite_ok s)"

section \<open>Start-up and the commands that create users\<close>

text \<open>
  \<^verbatim>\<open>__init__\<close> (gamified\_bot.py 45--48, demo.py 32--34). \<open>t_now\<close> is the reading of
  \<^verbatim>\<open>datetime.now(timezone.utc)\<close> and \<open>t_time\<close> the reading of \<^verbatim>\<open>time.time()\<close> turned into a
  \<^verbatim>\<open>timedelta\<close>, both in microseconds since the epoch. \<open>loaded\<close> is the dictionary that
  \<^verbatim>\<open>load_user_data\<close> built from the table (empty in demo.py).
\<close>

definition bot_init :: "time \<Rightarrow> time \<Rightarrow> (nat \<times> user_rec) list \<Rightarrow> (nat \<rightharpoonup> user_rec) \<Rightarrow> bot" where
  "bot_init t_now t_time loaded dbv =
     \<lparr>repo = None, user_data = loaded, last_global_check = t_now - t_time, db = dbv\<rparr>"

definition demo_bot_init :: "time \<Rightarrow> time \<Rightarrow> bot" where
  "demo_bot_init t_now t_time =
     \<lparr>repo = None, user_data = [], last_global_check = t_now - t_time, db = Map.empty\<rparr>"

text \<open>
  \<^verbatim>\<open>!set_repo\<close>: \<open>found\<close> tells whether \<^verbatim>\<open>self.github.get_repo(repo_name)\<close> returned. The chat
  replies of the commands are not part of the bot's state and are left out.
\<close>

definition set_repo :: "bool \<Rightarrow> string \<Rightarrow> bot \<Rightarrow> bot" where
  "set_repo found repo_name s = (if found then s\<lparr>repo := Some repo_name\<rparr> else s)"

text \<open>
  \<^verbatim>\<open>!link_github\<close> (gamified\_bot.py 125--140): refused while no repository is set; otherwise
  the author's entry is created or replaced (a dictionary assignment keeps the position
  of an existing key) and saved. demo.py (47--60) does the same without saving.
\<close>

definition new_user :: "string \<Rightarrow> time \<Rightarrow> user_rec" where
  "new_user github_username global_check =
     \<lparr>github_user = github_username, points = 0, badges = [], current_challenge = None,
      last_activity_check = global_check\<rparr>"

definition link_github :: "bool \<Rightarrow> nat \<Rightarrow> string \<Rightarrow> bot \<Rightarrow> bot" where
  "link_github ok author_id github_username s =
     (case repo s of
        None \<Rightarrow> s
      | Some _ \<Rightarrow>
          (let d = new_user github_username (last_global_check s)
           in s\<lparr>user_data := AList.update author_id d (user_data s),
                db := save_user_data ok author_id d (db s)\<rparr>))"

definition demo_link_github :: "nat \<Rightarrow> string \<Rightarrow> bot \<Rightarrow> bot" where
  "demo_link_github author_id github_username s =
     (case repo s of
        None \<Rightarrow> s
      | Some _ \<Rightarrow>
          s\<lparr>user_data :=
              AList.update author_id (new_user github_username (last_global_check s))
                (user_data s)\<rparr>)"

section \<open>The text-generation call\<close>

text \<open>Python's \<^verbatim>\<open>needle in haystack\<close> on strings.\<close>

fun starts_with :: "string \<Rightarrow> string \<Rightarrow> bool" where
  "starts_with [] ys = True"
| "starts_with (x # xs) [] = False"
| "starts_with (x # xs) (y # ys) = (x = y \<and> starts_with xs ys)"

fun py_in :: "string \<Rightarrow> string \<Rightarrow> bool" where
  "py_in needle [] = starts_with needle []"
| "py_in needle (c # cs) = (starts_with needle (c # cs) \<or> py_in needle cs)"

text \<open>What the call does to the outside: a request of attempt \<open>k\<close>, a sleep of some seconds.\<close>

datatype effect = Request nat | Sleep nat

text \<open>
  \<^verbatim>\<open>call_gemini\<close> (gamified\_bot.py 265--286). \<open>urlopen k\<close> is the outcome of the \<^verbatim>\<open>try\<close> body
  on attempt \<open>k\<close>: \<open>Inr text\<close> when the request and the decoding of the answer succeed
  (\<open>text\<close> is the stripped answer), \<open>Inl msg\<close> when they raise an exception with
  \<^verbatim>\<open>str(e) = msg\<close>. The loop is \<^verbatim>\<open>for attempt in range(3)\<close>; the result is the returned
  string with the trace of requests and sleeps.
\<close>

fun call_gemini_loop ::
  "(nat \<Rightarrow> string + string) \<Rightarrow> nat list \<Rightarrow> effect list \<Rightarrow> string \<times> effect list" where
  "call_gemini_loop urlopen [] tr = (''Error: Gemini API rate limit exceeded.'', tr)"
| "call_gemini_loop urlopen (attempt # rest) tr =
     (case urlopen attempt of
        Inr response_text \<Rightarrow> (response_text, tr @ [Request attempt])
      | Inl msg \<Rightarrow>
          (if py_in ''429'' msg
           then call_gemini_loop urlopen rest (tr @ [Request attempt, Sleep (2 ^ attempt)])
           else (''Error calling AI: '' @ msg, tr @ [Request attempt])))"

definition call_gemini :: "(nat \<Rightarrow> string + string) \<Rightarrow> string \<times> effect list" where
  "call_gemini urlopen = call_gemini_loop urlopen [0, 1, 2] []"

text \<open>\<^verbatim>\<open>call_gemini\<close> of demo.py (163--176): one request, every exception becomes a string.\<close>

definition demo_call_gemini :: "(nat \<Rightarrow> string + string) \<Rightarrow> string \<times> effect list" where
  "demo_call_gemini urlopen =
     (case urlopen 0 of
        Inr response_text \<Rightarrow> (response_text, [Request 0])
      | Inl msg \<Rightarrow> (''Error calling AI: '' @ msg, [Request 0]))"

section \<open>Concrete scenarios\<close>

text \<open>
  Three linked users and two answers of GitHub, used to run the definitions. With
  \<open>api_ok\<close>, alice has one commit, carol one issue comment and bob one review (submitted at
  105); with \<open>api_bob_fails\<close> the commit query for bob raises.
\<close>

definition ex_alice :: user_rec where
  "ex_alice = \<lparr>github_user = ''alice'', points = 0, badges = [], current_challenge = None,
               last_activity_check = 0\<rparr>"

definition ex_bob :: user_rec where
  "ex_bob = \<lparr>github_user = ''bob'', points = 45, badges = [BRONZE],
             current_challenge = Some ''Review one PR'', last_activity_check = 50\<rparr>"

definition ex_carol :: user_rec where
  "ex_carol = \<lparr>github_user = ''carol'', points = 0, badges = [],
               current_challenge = Some ''Comment on an issue'', last_activity_check = 0\<rparr>"

definition ex_pulls :: "pull list" where
  "ex_pulls = [Pull (Inr [\<lparr>review_login = ''bob'', submitted_at = 105\<rparr>])]"

definition api_ok :: github_api where
  "api_ok = \<lparr>get_commits = (\<lambda>author since. Inr (if author = ''alice'' then 1 else 0)),
             get_issues_comments = (\<lambda>since. Inr [\<lparr>comment_login = ''carol''\<rparr>]),
             get_pulls = Inr ex_pulls\<rparr>"

definition api_bob_fails :: github_api where
  "api_bob_fails =
     \<lparr>get_commits = (\<lambda>author since. if author = ''bob'' then Inl (ApiError ''502 Bad Gateway'')
                                      else Inr (if author = ''alice'' then 1 else 0)),
      get_issues_comments = (\<lambda>since. Inr [\<lparr>comment_login = ''carol''\<rparr>]),
      get_pulls = Inr ex_pulls\<rparr>"

definition sqlite_fine :: "nat \<Rightarrow> bool" where
  "sqlite_fine disc_id = True"

definition ex_bot :: bot where
  "ex_bot = \<lparr>repo = Some ''owner/repo'', user_data = [(1, ex_alice), (2, ex_bob), (3, ex_carol)],
             last_global_check = 0, db = Map.empty\<rparr>"

text \<open>
  One user, dave, without a challenge, and a repository whose only activity is one review
  by dave, submitted at 105.
\<close>

definition ex_dave :: user_rec where
  "ex_dave = \<lparr>github_user = ''dave'', points = 0, badges = [], current_challenge = None,
              last_activity_check = 0\<rparr>"


definition ex_bot_dave :: bot where
  "ex_bot_dave = \<lparr>repo = Some ''owner/repo'', user_data = [(4, ex_dave)],
                  last_global_check = 0, db = Map.empty\<rparr>"

text \<open>
  Two further answers for dave: one review stamped 90, and three reviews stamped 90, 105
  and 250.
\<close>

definition api_dave_early :: github_api where
  "api_dave_early = \<lparr>get_commits = (\<lambda>author since. Inr 0),
                     get_issues_comments = (\<lambda>since. Inr []),
                     get_pulls = Inr [Pull (Inr [\<lparr>review_login = ''dave'', submitted_at = 90\<rparr>])]\<rparr>"


text \<open>
  A repository with activity of every kind by frank: two commits, two of three issue
  comments, and four reviews in two pull requests (stamped 105, 40, 300 and, by bob, 200).
  frank is tracked after alice, without a challenge, with watermark 50.
\<close>

definition ex_frank :: user_rec where
  "ex_frank = \<lparr>github_user = ''frank'', points = 0, badges = [], current_challenge = None,
               last_activity_check = 50\<rparr>"

definition frank_comments :: "issue_comment list" where
  "frank_comments = [\<lparr>comment_login = ''frank''\<rparr>, \<lparr>comment_login = ''carol''\<rparr>,
                     \<lparr>comment_login = ''frank''\<rparr>]"

definition frank_reviews :: "review list list" where
  "frank_reviews = [[\<lparr>review_login = ''frank'', submitted_at = 105\<rparr>,
                     \<lparr>review_login = ''frank'', submitted_at = 40\<rparr>,
                     \<lparr>review_login = ''bob'', submitted_at = 200\<rparr>],
                    [\<lparr>review_login = ''frank'', submitted_at = 300\<rparr>]]"

definition frank_pulls :: "pull list" where
  "frank_pulls = map (\<lambda>reviews. Pull (Inr reviews)) frank_reviews"

definition api_frank :: github_api where
  "api_frank = \<lparr>get_commits = (\<lambda>author since. Inr (if author = ''frank'' then 2 else 0)),
                get_issues_comments = (\<lambda>since. Inr frank_comments),
                get_pulls = Inr frank_pulls\<rparr>"

definition ex_bot_frank :: bot where
  "ex_bot_frank = \<lparr>repo = Some ''owner/repo'', user_data = [(1, ex_alice), (5, ex_frank)],
                   last_global_check = 50, db = Map.empty\<rparr>"

text \<open>Answers of the text-generation service: always rate-limited, and a server error.\<close>

definition urlopen_429 :: "nat \<Rightarrow> string + string" where
  "urlopen_429 attempt = Inl ''HTTP Error 429: Too Many Requests''"

definition urlopen_500 :: "nat \<Rightarrow> string + string" where
  "urlopen_500 attempt = Inl ''HTTP Error 500: Internal Server Error''"

section \<open>Properties of the badge rule\<close>

lemma badge_names_distinct:
  "BRONZE \<noteq> SILVER" "BRONZE \<noteq> GOLD" "SILVER \<noteq> GOLD"
  "SILVER \<noteq> BRONZE" "GOLD \<noteq> BRONZE" "GOLD \<noteq> SILVER"
  by (simp_all add: BRONZE_def SILVER_def GOLD_def)

lemma update_badges_fields:
  "points (update_badges d) = points d"
  "github_user (update_badges d) = github_user d"
  "current_challenge (update_badges d) = current_challenge d"
  "last_activity_check (update_badges d) = last_activity_check d"
  by (simp_all add: update_badges_def Let_def)

lemma update_badges_idem: "update_badges (update_badges d) = update_badges d"
  by (simp add: update_badges_def Let_def badge_names_distinct)

lemma update_badges_append: "\<exists>ext. badges (update_badges d) = badges d @ ext"
  by (simp add: update_badges_def Let_def)

lemma update_badges_mono: "set (badges d) \<subseteq> set (badges (update_badges d))"
  by (auto simp add: update_badges_def Let_def)

lemma update_badges_distinct: "distinct (badges d) \<Longrightarrow> distinct (badges (update_badges d))"
  by (simp add: update_badges_def Let_def badge_names_distinct)

lemma update_badges_count:
  "count_list (badges (update_badges d)) b \<le> max 1 (count_list (badges d) b)"
  by (auto simp add: update_badges_def Let_def badge_names_distinct count_list_0_iff)

lemma update_badges_bronze: "10 \<le> points d \<Longrightarrow> BRONZE \<in> set (badges (update_badges d))"
  by (simp add: update_badges_def Let_def)
lemma update_badges_silver: "50 \<le> points d \<Longrightarrow> SILVER \<in> set (badges (update_badges d))"
  by (simp add: update_badges_def Let_def)
lemma update_badges_gold: "100 \<le> points d \<Longrightarrow> GOLD \<in> set (badges (update_badges d))"
  by (simp add: update_badges_def Let_def)

section \<open>Properties of the fetch\<close>

lemma review_points_concat:
  "review_points gh lc prs acc = Inr n \<Longrightarrow>
   n = acc + length (concat (map (\<lambda>pr. case get_reviews pr of Inl e \<Rightarrow> [] | Inr rs \<Rightarrow> user_reviews gh lc rs) prs)) * 15"
proof (induction prs arbitrary: acc)
  case Nil
  then show ?case by simp
next
  case (Cons pr prs)
  show ?case
  proof (cases "get_reviews pr")
    case (Inl e)
    with Cons.prems show ?thesis by simp
  next
    case (Inr rs)
    with Cons.prems
    have "review_points gh lc prs (acc + length (user_reviews gh lc rs) * 15) = Inr n"
      by simp
    from Cons.IH[OF this] show ?thesis by (simp add: Inr)
  qed
qed


lemma review_points_total:
  "(\<And>pr. pr \<in> set prs \<Longrightarrow> \<exists>rs. get_reviews pr = Inr rs) \<Longrightarrow>
   review_points gh lc prs acc = Inr (acc + length (concat (map (\<lambda>pr. case get_reviews pr of Inl e \<Rightarrow> [] | Inr rs \<Rightarrow> user_reviews gh lc rs) prs)) * 15)"
proof (induction prs arbitrary: acc)
  case Nil
  then show ?case by simp
next
  case (Cons pr prs)
  from Cons.prems[of pr] obtain rs where rs: "get_reviews pr = Inr rs" by auto
  have "\<And>q. q \<in> set prs \<Longrightarrow> \<exists>rs. get_reviews q = Inr rs" using Cons.prems by simp
  from Cons.IH[OF this] show ?case by (simp add: rs algebra_simps)
qed

lemma observed_reviews_after:
  "r \<in> set (observed_reviews gh lc prs) \<Longrightarrow> lc < submitted_at r \<and> review_login r = gh"
  by (auto simp: observed_reviews_def user_reviews_def split: sum.splits)

lemma apply_new_points_fields:
  "last_activity_check (apply_new_points now d np) = now"
  "github_user (apply_new_points now d np) = github_user d"
  "points (apply_new_points now d np) =
     points d + int np + (if truthy (current_challenge d) \<and> 0 < np then 20 else 0)"
  "current_challenge (apply_new_points now d np) =
     (if truthy (current_challenge d) \<and> 0 < np then None else current_challenge d)"
  "badges (apply_new_points now d np) = badges (update_badges (d\<lparr>points := points d + int np\<rparr>))"
  by (simp_all add: apply_new_points_def Let_def update_badges_fields)

lemma fetch_new_points_Inr:
  assumes "fetch_new_points api gh lc = Inr np"
  shows "\<exists>c cs prs. get_commits api gh lc = Inr c \<and> get_issues_comments api lc = Inr cs \<and>
           get_pulls api = Inr prs \<and>
           np = c * 10 + length (user_comments gh cs) * 5 + length (observed_reviews gh lc prs) * 15"
proof -
  from assms obtain c where c: "get_commits api gh lc = Inr c"
    by (cases "get_commits api gh lc") (simp_all add: fetch_new_points_def)
  from assms c obtain cs where cs: "get_issues_comments api lc = Inr cs"
    by (cases "get_issues_comments api lc") (simp_all add: fetch_new_points_def)
  from assms c cs obtain prs where prs: "get_pulls api = Inr prs"
    by (cases "get_pulls api") (simp_all add: fetch_new_points_def)
  from assms c cs prs
  have "review_points gh lc (take 10 prs) (c * 10 + length (user_comments gh cs) * 5) = Inr np"
    by (simp add: fetch_new_points_def)
  from review_points_concat[OF this]
  have "np = c * 10 + length (user_comments gh cs) * 5 + length (observed_reviews gh lc prs) * 15"
    by (simp add: observed_reviews_def)
  with c cs prs show ?thesis by blast
qed

lemma fetch_new_points_total:
  assumes "get_commits api gh lc = Inr c" "get_issues_comments api lc = Inr cs"
    "get_pulls api = Inr prs" "\<And>pr. pr \<in> set (take 10 prs) \<Longrightarrow> \<exists>rs. get_reviews pr = Inr rs"
  shows "fetch_new_points api gh lc =
           Inr (c * 10 + length (user_comments gh cs) * 5 + length (observed_reviews gh lc prs) * 15)"
  using review_points_total[of "take 10 prs" gh lc "c * 10 + length (user_comments gh cs) * 5", OF assms(4)]
  by (simp add: fetch_new_points_def assms(1-3) observed_reviews_def)

section \<open>Properties of the pass\<close>

lemma poll_user_fst: "fst (poll_user now rp api ok i d dbv) = polled now rp api d"
  by (simp add: poll_user_def polled_def Let_def split: sum.splits)

lemma poll_user_snd:
  "snd (poll_user now rp api ok i d dbv) =
     (case poll_fetch rp api d of
        Inl e \<Rightarrow> dbv
      | Inr np \<Rightarrow> save_user_data (ok i) i (apply_new_points now d np) dbv)"
  by (simp add: poll_user_def Let_def split: sum.splits)

lemma poll_users_fst:
  "fst (poll_users now rp api ok us dbv) = map (\<lambda>(i, d). (i, polled now rp api d)) us"
proof (induction us arbitrary: dbv)
  case Nil
  then show ?case by simp
next
  case (Cons p us)
  obtain i d where p: "p = (i, d)" by (cases p)
  obtain d' dbv' where h: "poll_user now rp api ok i d dbv = (d', dbv')"
    by (cases "poll_user now rp api ok i d dbv")
  obtain r' dbv'' where t: "poll_users now rp api ok us dbv' = (r', dbv'')"
    by (cases "poll_users now rp api ok us dbv'")
  from Cons.IH[of dbv'] t have "r' = map (\<lambda>(i, d). (i, polled now rp api d)) us" by simp
  moreover from h have "d' = polled now rp api d" using poll_user_fst[of now rp api ok i d dbv] by simp
  ultimately show ?case by (simp add: p h t)
qed

lemma poll_users_snd:
  "distinct (map fst us) \<Longrightarrow>
   snd (poll_users now rp api ok us dbv) j =
     (case map_of us j of
        None \<Rightarrow> dbv j
      | Some d \<Rightarrow>
          (case poll_fetch rp api d of
             Inl e \<Rightarrow> dbv j
           | Inr np \<Rightarrow> if ok j then Some (apply_new_points now d np) else dbv j))"
proof (induction us arbitrary: dbv)
  case Nil
  then show ?case by simp
next
  case (Cons p us)
  obtain i d where p: "p = (i, d)" by (cases p)
  obtain d' dbv' where h: "poll_user now rp api ok i d dbv = (d', dbv')"
    by (cases "poll_user now rp api ok i d dbv")
  obtain r' dbv'' where t: "poll_users now rp api ok us dbv' = (r', dbv'')"
    by (cases "poll_users now rp api ok us dbv'")
  from Cons.prems p have dist: "distinct (map fst us)" and notin: "i \<notin> fst ` set us" by auto
  have dbv': "dbv' = (case poll_fetch rp api d of Inl e \<Rightarrow> dbv
                 | Inr np \<Rightarrow> save_user_data (ok i) i (apply_new_points now d np) dbv)"
    using poll_user_snd[of now rp api ok i d dbv] h by simp
  have ih: "dbv'' j = (case map_of us j of None \<Rightarrow> dbv' j
      | Some d \<Rightarrow> (case poll_fetch rp api d of Inl e \<Rightarrow> dbv' j
           | Inr np \<Rightarrow> if ok j then Some (apply_new_points now d np) else dbv' j))"
    using Cons.IH[OF dist, of dbv'] t by simp
  have res: "snd (poll_users now rp api ok (p # us) dbv) j = dbv'' j"
    by (simp add: p h t)
  show ?case
  proof (cases "j = i")
    case True
    with notin have none: "map_of us j = None" by (simp add: map_of_eq_None_iff)
    have "dbv'' j = dbv' j" using ih none by simp
    also have "dbv' j = (case poll_fetch rp api d of Inl e \<Rightarrow> dbv j
           | Inr np \<Rightarrow> if ok j then Some (apply_new_points now d np) else dbv j)"
      using True by (simp add: dbv' save_user_data_def split: sum.splits)
    finally show ?thesis unfolding res using True by (simp add: p)
  next
    case False
    then have "dbv' j = dbv j" by (simp add: dbv' save_user_data_def split: sum.splits)
    with ih False show ?thesis unfolding res by (simp add: p split: option.splits sum.splits)
  qed
qed

lemma poll_github_once_fields:
  "user_data (poll_github_once now api ok s) = map (\<lambda>(i, d). (i, polled now (repo s) api d)) (user_data s)"
  "last_global_check (poll_github_once now api ok s) = now"
  "repo (poll_github_once now api ok s) = repo s"
  "db (poll_github_once now api ok s) = snd (poll_users now (repo s) api ok (user_data s) (db s))"
  using poll_users_fst[of now "repo s" api ok "user_data s" "db s"]
  by (cases "poll_users now (repo s) api ok (user_data s) (db s)"; simp add: poll_github_once_def)+

lemma poll_github_once_nth:
  "k < length (user_data s) \<Longrightarrow> user_data s ! k = (i, u) \<Longrightarrow>
   user_data (poll_github_once now api ok s) ! k = (i, polled now (repo s) api u)"
  by (simp add: poll_github_once_fields)

lemma demo_poll_users_length: "length (fst (demo_poll_users now rp api us)) = length us"
  by (induction us) (auto split: sum.splits prod.splits)

lemma demo_poll_users_None:
  "snd (demo_poll_users now rp api us) = None \<Longrightarrow>
   fst (demo_poll_users now rp api us) = map (\<lambda>(i, d). (i, polled now rp api d)) us"
  by (induction us) (auto split: sum.splits prod.splits simp: polled_def)

lemma demo_poll_users_None_ok:
  "snd (demo_poll_users now rp api us) = None \<Longrightarrow> (i, d) \<in> set us \<Longrightarrow>
   \<exists>np. poll_fetch rp api d = Inr np"
  by (induction us) (auto split: sum.splits prod.splits)

lemma demo_poll_github_once_None:
  "snd (demo_poll_github_once now api s) = None \<Longrightarrow>
   user_data (fst (demo_poll_github_once now api s)) = map (\<lambda>(i, d). (i, polled now (repo s) api d)) (user_data s)
   \<and> last_global_check (fst (demo_poll_github_once now api s)) = now
   \<and> snd (demo_poll_users now (repo s) api (user_data s)) = None"
  using demo_poll_users_None[of now "repo s" api "user_data s"]
  by (auto simp add: demo_poll_github_once_def split: prod.splits option.splits)

lemma demo_poll_users_abort:
  "k < length us \<Longrightarrow> (\<forall>j<k. \<exists>np. poll_fetch rp api (snd (us ! j)) = Inr np) \<Longrightarrow>
   poll_fetch rp api (snd (us ! k)) = Inl e \<Longrightarrow>
   demo_poll_users now rp api us =
     (map (\<lambda>(i, d). (i, polled now rp api d)) (take k us) @ drop k us, Some e)"
proof (induction us arbitrary: k)
  case Nil
  then show ?case by simp
next
  case (Cons p us)
  obtain i d where p: "p = (i, d)" by (cases p)
  show ?case
  proof (cases k)
    case 0
    with Cons.prems show ?thesis by (simp add: p)
  next
    case (Suc k')
    from Cons.prems(2) Suc obtain np where np: "poll_fetch rp api d = Inr np"
      by (auto simp: p dest: spec[of _ 0])
    from Cons.prems Suc have 1: "k' < length us" by simp
    from Cons.prems(2) Suc have 2: "\<forall>j<k'. \<exists>np. poll_fetch rp api (snd (us ! j)) = Inr np"
      by (metis Suc_less_eq nth_Cons_Suc)
    from Cons.prems(3) Suc have 3: "poll_fetch rp api (snd (us ! k')) = Inl e" by simp
    from Cons.IH[OF 1 2 3] show ?thesis by (simp add: p np Suc polled_def)
  qed
qed

lemma demo_poll_users_nth:
  "k < length us \<Longrightarrow> (\<forall>j\<le>k. \<exists>np. poll_fetch rp api (snd (us ! j)) = Inr np) \<Longrightarrow>
   fst (demo_poll_users now rp api us) ! k = (fst (us ! k), polled now rp api (snd (us ! k)))"
proof (induction us arbitrary: k)
  case Nil
  then show ?case by simp
next
  case (Cons p us)
  obtain i d where p: "p = (i, d)" by (cases p)
  from Cons.prems(2) obtain np where np: "poll_fetch rp api d = Inr np"
    by (auto simp: p dest: spec[of _ 0])
  obtain r' e' where t: "demo_poll_users now rp api us = (r', e')"
    by (cases "demo_poll_users now rp api us")
  show ?case
  proof (cases k)
    case 0
    then show ?thesis by (simp add: p np t polled_def)
  next
    case (Suc k')
    from Cons.prems Suc have 1: "k' < length us" by simp
    from Cons.prems(2) Suc have 2: "\<forall>j\<le>k'. \<exists>np. poll_fetch rp api (snd (us ! j)) = Inr np"
      by (metis Suc_le_mono nth_Cons_Suc)
    from Cons.IH[OF 1 2] t show ?thesis by (simp add: p np Suc)
  qed
qed

lemma demo_poll_github_once_user_data:
  "user_data (fst (demo_poll_github_once now api s)) = fst (demo_poll_users now (repo s) api (user_data s))"
  by (simp add: demo_poll_github_once_def split: prod.splits option.splits)

lemma polled_Inr:
  "poll_fetch rp api d = Inr np \<Longrightarrow> polled now rp api d = apply_new_points now d np"
  by (simp add: polled_def)

lemma polled_Inl:
  "poll_fetch rp api d = Inl e \<Longrightarrow> polled now rp api d = d"
  by (simp add: polled_def)

lemma poll_github_once_fault_isolation:
  assumes "distinct (map fst (user_data s))" and "k < length (user_data s)"
    and "user_data s ! k = (i, u)"
  shows
    "(\<forall>e. poll_fetch (repo s) api u = Inl e \<longrightarrow>
        user_data (poll_github_once now api ok s) ! k = (i, u) \<and>
        db (poll_github_once now api ok s) i = db s i) \<and>
     (\<forall>np. poll_fetch (repo s) api u = Inr np \<longrightarrow>
        user_data (poll_github_once now api ok s) ! k = (i, apply_new_points now u np) \<and>
        db (poll_github_once now api ok s) i =
          (if ok i then Some (apply_new_points now u np) else db s i)) \<and>
     last_global_check (poll_github_once now api ok s) = now"
proof -
  from assms(2,3) have "(i, u) \<in> set (user_data s)" by (metis nth_mem)
  with assms(1) have m: "map_of (user_data s) i = Some u" by simp
  show ?thesis
    by (auto simp add: poll_github_once_nth[OF assms(2,3)] polled_def
        poll_github_once_fields(2,4) poll_users_snd[OF assms(1)] m)
qed

section \<open>Properties of the text-generation call and of the commands\<close>

lemma call_gemini_rate_limited:
  assumes "urlopen 0 = Inl m0" "py_in ''429'' m0" "urlopen 1 = Inl m1" "py_in ''429'' m1"
    "urlopen 2 = Inl m2" "py_in ''429'' m2"
  shows "call_gemini urlopen =
           (''Error: Gemini API rate limit exceeded.'',
            [Request 0, Sleep 1, Request 1, Sleep 2, Request 2, Sleep 4])"
proof -
  have one: "urlopen (Suc 0) = Inl m1" using assms(3) by simp
  show ?thesis
    by (simp add: call_gemini_def assms(1,2,4,5,6) one)
qed

lemma call_gemini_other_failure:
  assumes "urlopen 0 = Inl m0" "\<not> py_in ''429'' m0"
  shows "call_gemini urlopen = (''Error calling AI: '' @ m0, [Request 0])"
  by (simp add: call_gemini_def assms)

lemma call_gemini_success:
  assumes "urlopen 0 = Inr text"
  shows "call_gemini urlopen = (text, [Request 0])"
  by (simp add: call_gemini_def assms)

lemma py_in_429_rate_limit: "py_in ''429'' ''HTTP Error 429: Too Many Requests''"
  by simp

lemma py_in_429_server_error: "\<not> py_in ''429'' ''HTTP Error 500: Internal Server Error''"
  by simp

lemma link_github_lookup:
  "repo s = Some nm \<Longrightarrow>
   map_of (user_data (link_github ok a gh s)) a = Some (new_user gh (last_global_check s))"
  by (simp add: link_github_def Let_def update_conv')

lemma demo_link_github_lookup:
  "repo s = Some nm \<Longrightarrow>
   map_of (user_data (demo_link_github a gh s)) a = Some (new_user gh (last_global_check s))"
  by (simp add: demo_link_github_def update_conv')

lemma commands_keep_last_global_check:
  "last_global_check (link_github ok a gh s) = last_global_check s"
  "last_global_check (demo_link_github a gh s) = last_global_check s"
  "last_global_check (set_repo found nm s) = last_global_check s"
  by (simp_all add: link_github_def demo_link_github_def set_repo_def Let_def split: option.splits)

section \<open>The points of a pass, written out\<close>


lemma concat_user_reviews:
  "map get_reviews prs = map Inr rss \<Longrightarrow>
   concat (map (\<lambda>pr. case get_reviews pr of Inl e \<Rightarrow> [] | Inr rs \<Rightarrow> user_reviews gh lc rs) prs)
     = filter (\<lambda>r. review_login r = gh \<and> lc < submitted_at r) (concat rss)"
proof (induction prs arbitrary: rss)
  case Nil
  then show ?case by simp
next
  case (Cons pr prs)
  from Cons.prems obtain rs rss' where rss: "rss = rs # rss'" "get_reviews pr = Inr rs"
    "map get_reviews prs = map Inr rss'"
    by (cases rss) auto
  from Cons.IH[OF rss(3)] show ?case by (simp add: rss user_reviews_def)
qed

lemma observed_reviews_explicit:
  "map get_reviews (take 10 prs) = map Inr rss \<Longrightarrow>
   observed_reviews gh lc prs = filter (\<lambda>r. review_login r = gh \<and> lc < submitted_at r) (concat rss)"
  unfolding observed_reviews_def by (rule concat_user_reviews)

lemma map_get_reviews_mem:
  "map get_reviews prs = map Inr rss \<Longrightarrow> pr \<in> set prs \<Longrightarrow> \<exists>rs. get_reviews pr = Inr rs"
proof -
  assume a: "map get_reviews prs = map Inr rss" and b: "pr \<in> set prs"
  from b have "get_reviews pr \<in> set (map get_reviews prs)" by simp
  with a have "get_reviews pr \<in> set (map Inr rss)" by simp
  then show ?thesis by auto
qed


lemma fetch_new_points_explicit_total:
  assumes "get_commits api gh lc = Inr c" "get_issues_comments api lc = Inr cs"
    "get_pulls api = Inr prs" "map get_reviews (take 10 prs) = map Inr rss"
  shows "fetch_new_points api gh lc =
           Inr (c * 10 + length (filter (\<lambda>x. comment_login x = gh) cs) * 5
                  + length (filter (\<lambda>r. review_login r = gh \<and> lc < submitted_at r) (concat rss)) * 15)"
proof -
  have "\<And>pr. pr \<in> set (take 10 prs) \<Longrightarrow> \<exists>rs. get_reviews pr = Inr rs"
    using map_get_reviews_mem[OF assms(4)] by blast
  from fetch_new_points_total[OF assms(1-3) this]
  show ?thesis by (simp add: observed_reviews_explicit[OF assms(4)] user_comments_def)
qed



lemma poll_github_once_map_of:
  "map_of (user_data (poll_github_once now api ok s)) a =
     map_option (polled now (repo s) api) (map_of (user_data s) a)"
  by (simp add: poll_github_once_fields map_of_map)

lemma commands_keep_repo:
  "repo s = Some nm \<Longrightarrow> repo (link_github ok a gh s) = Some nm"
  "repo s = Some nm \<Longrightarrow> repo (demo_link_github a gh s) = Some nm"
  by (simp_all add: link_github_def demo_link_github_def Let_def)

section \<open>Claims about the badge rule\<close>

text \<open>
  Claim C7. After \<^verbatim>\<open>update_badges\<close> the badge list contains ``Bronze Collaborator'' whenever
  the score is at least 10, ``Silver Collaborator'' whenever it is at least 50 and ``Gold
  Collaborator'' whenever it is at least 100, so a score of 100 or more gives all three.
  A user without badges whose score is from 10 to 49 gets exactly the Bronze badge, and a
  holder of Bronze whose score is from 50 to 99 gets Silver and keeps Bronze.
\<close>

theorem C7_badge_thresholds:
  "(10 \<le> points d \<longrightarrow> BRONZE \<in> set (badges (update_badges d))) \<and>
   (50 \<le> points d \<longrightarrow> SILVER \<in> set (badges (update_badges d))) \<and>
   (100 \<le> points d \<longrightarrow> GOLD \<in> set (badges (update_badges d))) \<and>
   (100 \<le> points d \<longrightarrow> {BRONZE, SILVER, GOLD} \<subseteq> set (badges (update_badges d))) \<and>
   (badges d = [] \<and> 10 \<le> points d \<and> points d < 50 \<longrightarrow>
      badges (update_badges d) = [BRONZE]) \<and>
   (badges d = [BRONZE] \<and> 50 \<le> points d \<and> points d < 100 \<longrightarrow>
      badges (update_badges d) = [BRONZE, SILVER])"
proof -
  have s: "50 \<le> points d \<Longrightarrow> 10 \<le> points d" and g: "100 \<le> points d \<Longrightarrow> 50 \<le> points d"
    by simp_all
  have "100 \<le> points d \<longrightarrow> {BRONZE, SILVER, GOLD} \<subseteq> set (badges (update_badges d))"
    using update_badges_bronze[of d] update_badges_silver[of d] update_badges_gold[of d]
    by simp
  moreover have "badges d = [] \<and> 10 \<le> points d \<and> points d < 50 \<longrightarrow>
      badges (update_badges d) = [BRONZE]"
    by (simp add: update_badges_def Let_def)
  moreover have "badges d = [BRONZE] \<and> 50 \<le> points d \<and> points d < 100 \<longrightarrow>
      badges (update_badges d) = [BRONZE, SILVER]"
    by (simp add: update_badges_def Let_def badge_names_distinct)
  ultimately show ?thesis
    using update_badges_bronze[of d] update_badges_silver[of d] update_badges_gold[of d]
    by blast
qed

theorem C7_badge_thresholds_witness:
  "BRONZE \<in> set (badges (update_badges (ex_alice\<lparr>points := 120\<rparr>))) \<and>
   SILVER \<in> set (badges (update_badges (ex_alice\<lparr>points := 120\<rparr>))) \<and>
   GOLD \<in> set (badges (update_badges (ex_alice\<lparr>points := 120\<rparr>))) \<and>
   badges (update_badges (ex_alice\<lparr>points := 10\<rparr>)) = [BRONZE] \<and>
   badges (update_badges (ex_bob\<lparr>points := 55\<rparr>)) = [BRONZE, SILVER]"
  using C7_badge_thresholds[of "ex_alice\<lparr>points := 120\<rparr>"]
    C7_badge_thresholds[of "ex_alice\<lparr>points := 10\<rparr>"]
    C7_badge_thresholds[of "ex_bob\<lparr>points := 55\<rparr>"]
  by (simp add: ex_alice_def ex_bob_def)

text \<open>
  Claim C8. \<^verbatim>\<open>update_badges\<close> is idempotent and monotone: evaluating twice gives the same
  record as evaluating once; the old badge list is a prefix of the new one, so no badge is
  removed; a list without repetitions stays without repetitions, and a badge that is
  already present is never appended again.
\<close>

theorem C8_badges_idempotent_monotone:
  "update_badges (update_badges d) = update_badges d \<and>
   (\<exists>ext. badges (update_badges d) = badges d @ ext) \<and>
   set (badges d) \<subseteq> set (badges (update_badges d)) \<and>
   (distinct (badges d) \<longrightarrow> distinct (badges (update_badges d))) \<and>
   (\<forall>b. count_list (badges (update_badges d)) b \<le> max 1 (count_list (badges d) b))"
  using update_badges_idem[of d] update_badges_append[of d] update_badges_mono[of d]
    update_badges_distinct[of d] update_badges_count[of d]
  by blast

theorem C8_badges_idempotent_monotone_witness:
  "update_badges (update_badges (ex_bob\<lparr>points := 120\<rparr>)) = update_badges (ex_bob\<lparr>points := 120\<rparr>) \<and>
   distinct (badges (ex_bob\<lparr>points := 120\<rparr>)) \<and>
   distinct (badges (update_badges (ex_bob\<lparr>points := 120\<rparr>))) \<and>
   badges (update_badges (ex_bob\<lparr>points := 120\<rparr>)) = [BRONZE, SILVER, GOLD]"
  using C8_badges_idempotent_monotone[of "ex_bob\<lparr>points := 120\<rparr>"]
  by (simp add: ex_bob_def update_badges_def Let_def badge_names_distinct)

section \<open>Claims about the reconciliation pass\<close>

text \<open>
  Claim C1. A tracked user has no active challenge. GitHub answers the queries of the
  pass for this user: \<open>c\<close> is the commit count returned for the user and the watermark,
  \<open>m\<close> the number of returned issue comments whose author is the user, and \<open>r\<close> the number of
  reviews in the first ten pull requests whose author is the user and whose
  \<^verbatim>\<open>submitted_at\<close> is later than the watermark. Then one pass of gamified\_bot.py increases
  the user's score by exactly \<open>10 c + 5 m + 15 r\<close>, and a user who starts at 0 ends with
  that score. The same holds for the pass of demo.py whenever its loop reaches the user
  (no fetch of an earlier user raised).
\<close>

theorem C1_score_delta:
  assumes "k < length (user_data s)" and "user_data s ! k = (i, u)" and "repo s = Some nm"
    and "\<not> truthy (current_challenge u)"
    and "get_commits api (github_user u) (last_activity_check u) = Inr c"
    and "get_issues_comments api (last_activity_check u) = Inr cs"
    and "get_pulls api = Inr prs"
    and "map get_reviews (take 10 prs) = map Inr rss"
    and "m = length (filter (\<lambda>x. comment_login x = github_user u) cs)"
    and "r = length (filter (\<lambda>x. review_login x = github_user u \<and>
                                   last_activity_check u < submitted_at x) (concat rss))"
  shows
    "points (snd (user_data (poll_github_once now api ok s) ! k)) =
       points u + 10 * int c + 5 * int m + 15 * int r
     \<and> (points u = 0 \<longrightarrow>
          points (snd (user_data (poll_github_once now api ok s) ! k)) =
            10 * int c + 5 * int m + 15 * int r)
     \<and> ((\<forall>j<k. \<exists>np. poll_fetch (repo s) api (snd (user_data s ! j)) = Inr np) \<longrightarrow>
          points (snd (user_data (fst (demo_poll_github_once now api s)) ! k)) =
            points u + 10 * int c + 5 * int m + 15 * int r)"
proof -
  have f: "fetch_new_points api (github_user u) (last_activity_check u) =
             Inr (c * 10 + m * 5 + r * 15)"
    unfolding assms(9,10) by (rule fetch_new_points_explicit_total[OF assms(5-8)])
  have pf: "poll_fetch (repo s) api u = Inr (c * 10 + m * 5 + r * 15)"
    by (simp add: poll_fetch_def assms(3) f)
  have pts: "points (polled now (repo s) api u) = points u + 10 * int c + 5 * int m + 15 * int r"
    by (simp add: polled_Inr[OF pf] apply_new_points_fields assms(4))
  have g: "snd (user_data (poll_github_once now api ok s) ! k) = polled now (repo s) api u"
    by (simp add: poll_github_once_nth[OF assms(1,2)])
  have d: "snd (user_data (fst (demo_poll_github_once now api s)) ! k) = polled now (repo s) api u"
    if a: "\<forall>j<k. \<exists>np. poll_fetch (repo s) api (snd (user_data s ! j)) = Inr np"
  proof -
    have "\<forall>j\<le>k. \<exists>np. poll_fetch (repo s) api (snd (user_data s ! j)) = Inr np"
    proof (intro allI impI)
      fix j assume "j \<le> k"
      then consider "j < k" | "j = k" by linarith
      then show "\<exists>np. poll_fetch (repo s) api (snd (user_data s ! j)) = Inr np"
        using a pf assms(2) by cases auto
    qed
    from demo_poll_users_nth[OF assms(1) this]
    show ?thesis by (simp add: demo_poll_github_once_user_data assms(2))
  qed
  from pts g d show ?thesis by simp
qed

theorem C1_score_delta_witness:
  "\<not> truthy (current_challenge ex_frank) \<and>
   get_commits api_frank (github_user ex_frank) (last_activity_check ex_frank) = Inr 2 \<and>
   length (filter (\<lambda>x. comment_login x = github_user ex_frank) frank_comments) = 2 \<and>
   length (filter (\<lambda>x. review_login x = github_user ex_frank \<and>
                        last_activity_check ex_frank < submitted_at x) (concat frank_reviews)) = 2 \<and>
   points ex_frank = 0 \<and>
   points (snd (user_data (poll_github_once 100 api_frank sqlite_fine ex_bot_frank) ! 1)) = 60 \<and>
   poll_fetch (repo ex_bot_frank) api_frank (snd (user_data ex_bot_frank ! 0)) = Inr 0 \<and>
   points (snd (user_data (fst (demo_poll_github_once 100 api_frank ex_bot_frank)) ! 1)) = 60"
proof -
  have h1: "1 < length (user_data ex_bot_frank)" and h2: "user_data ex_bot_frank ! 1 = (5, ex_frank)"
    and h3: "repo ex_bot_frank = Some ''owner/repo''"
    by (simp_all add: ex_bot_frank_def)
  have h4: "\<not> truthy (current_challenge ex_frank)"
    by (simp add: ex_frank_def truthy_def)
  have h5: "get_commits api_frank (github_user ex_frank) (last_activity_check ex_frank) = Inr 2"
    and h6: "get_issues_comments api_frank (last_activity_check ex_frank) = Inr frank_comments"
    and h7: "get_pulls api_frank = Inr frank_pulls"
    by (simp_all add: api_frank_def ex_frank_def)
  have h8: "map get_reviews (take 10 frank_pulls) = map Inr frank_reviews"
    by (simp add: frank_pulls_def frank_reviews_def)
  have h9: "2 = length (filter (\<lambda>x. comment_login x = github_user ex_frank) frank_comments)"
    by (simp add: frank_comments_def ex_frank_def)
  have h10: "2 = length (filter (\<lambda>x. review_login x = github_user ex_frank \<and>
                        last_activity_check ex_frank < submitted_at x) (concat frank_reviews))"
    by (simp add: frank_reviews_def ex_frank_def)
  have e: "points ex_frank = 0" by (simp add: ex_frank_def)
  have a: "poll_fetch (repo ex_bot_frank) api_frank (snd (user_data ex_bot_frank ! 0)) = Inr 0"
    by (simp add: ex_bot_frank_def poll_fetch_def fetch_new_points_def api_frank_def ex_alice_def
        frank_comments_def frank_pulls_def frank_reviews_def user_comments_def user_reviews_def)
  then have a': "\<forall>j<1. \<exists>np. poll_fetch (repo ex_bot_frank) api_frank (snd (user_data ex_bot_frank ! j)) = Inr np"
    by simp
  from C1_score_delta[OF h1 h2 h3 h4 h5 h6 h7 h8 h9 h10, of 100 sqlite_fine] a' e
  have "points (snd (user_data (poll_github_once 100 api_frank sqlite_fine ex_bot_frank) ! 1)) = 60"
    and "points (snd (user_data (fst (demo_poll_github_once 100 api_frank ex_bot_frank)) ! 1)) = 60"
    by simp_all
  with h4 h5 h9[symmetric] h10[symmetric] e a show ?thesis by blast
qed

text \<open>
  The timestamp of a pass. In gamified\_bot.py every user whose fetch succeeds gets \<open>now\<close>
  as watermark, also when no points are added, and \<^verbatim>\<open>last_global_check\<close> is \<open>now\<close> at the
  end of every pass. In demo.py every user reached by the loop gets \<open>now\<close>, and
  \<^verbatim>\<open>last_global_check\<close> is \<open>now\<close> only when the pass returns without an exception.
\<close>

lemma poll_github_once_shared_timestamp:
  "last_global_check (poll_github_once now api ok s) = now \<and>
   length (user_data (poll_github_once now api ok s)) = length (user_data s) \<and>
   (\<forall>k<length (user_data s). \<forall>np.
      poll_fetch (repo s) api (snd (user_data s ! k)) = Inr np \<longrightarrow>
      last_activity_check (snd (user_data (poll_github_once now api ok s) ! k)) = now) \<and>
   (\<forall>k<length (user_data s).
      (\<forall>j\<le>k. \<exists>np. poll_fetch (repo s) api (snd (user_data s ! j)) = Inr np) \<longrightarrow>
      last_activity_check (snd (user_data (fst (demo_poll_github_once now api s)) ! k)) = now) \<and>
   (snd (demo_poll_github_once now api s) = None \<longrightarrow>
      last_global_check (fst (demo_poll_github_once now api s)) = now)"
proof -
  have a: "last_global_check (poll_github_once now api ok s) = now"
    by (simp add: poll_github_once_fields)
  have b: "length (user_data (poll_github_once now api ok s)) = length (user_data s)"
    by (simp add: poll_github_once_fields)
  have c: "last_activity_check (snd (user_data (poll_github_once now api ok s) ! k)) = now"
    if "k < length (user_data s)" "poll_fetch (repo s) api (snd (user_data s ! k)) = Inr np"
    for k np
  proof -
    obtain i u where iu: "user_data s ! k = (i, u)" by (cases "user_data s ! k")
    from that(2) iu have "polled now (repo s) api u = apply_new_points now u np"
      by (simp add: polled_Inr)
    then show ?thesis
      by (simp add: poll_github_once_nth[OF that(1) iu] apply_new_points_fields)
  qed
  have d: "last_activity_check (snd (user_data (fst (demo_poll_github_once now api s)) ! k)) = now"
    if "k < length (user_data s)"
      "\<forall>j\<le>k. \<exists>np. poll_fetch (repo s) api (snd (user_data s ! j)) = Inr np"
    for k
  proof -
    from that(2) obtain np where "poll_fetch (repo s) api (snd (user_data s ! k)) = Inr np"
      by blast
    then have "polled now (repo s) api (snd (user_data s ! k))
                 = apply_new_points now (snd (user_data s ! k)) np"
      by (simp add: polled_Inr)
    then show ?thesis
      by (simp add: demo_poll_github_once_user_data demo_poll_users_nth[OF that]
          apply_new_points_fields)
  qed
  have e: "snd (demo_poll_github_once now api s) = None \<longrightarrow>
      last_global_check (fst (demo_poll_github_once now api s)) = now"
    using demo_poll_github_once_None[of now api s] by simp
  from a b c d e show ?thesis by blast
qed

text \<open>
  Claim C2 (one timestamp \<open>now\<close> per pass, written to every processed user and, after
  all users were processed or failed, to the global watermark), evaluated where it
  fails. alice, bob and carol are tracked and the commit query for bob raises. The pass
  of demo.py at \<open>now = 100\<close> ends with the exception: alice has watermark 100, carol keeps
  watermark 0, and \<^verbatim>\<open>last_global_check\<close> is still 0. The pass of gamified\_bot.py on the
  same input gives alice and carol the watermark 100, leaves bob at 50 and sets
  \<^verbatim>\<open>last_global_check\<close> to 100 (in general: lemma \<open>poll_github_once_shared_timestamp\<close>).
\<close>

theorem C2_demo_watermark_not_advanced:
  "snd (demo_poll_github_once 100 api_bob_fails ex_bot) = Some (ApiError ''502 Bad Gateway'') \<and>
   last_global_check (fst (demo_poll_github_once 100 api_bob_fails ex_bot)) = 0 \<and>
   map (\<lambda>p. last_activity_check (snd p))
       (user_data (fst (demo_poll_github_once 100 api_bob_fails ex_bot))) = [100, 50, 0] \<and>
   last_global_check (poll_github_once 100 api_bob_fails sqlite_fine ex_bot) = 100 \<and>
   map (\<lambda>p. last_activity_check (snd p))
       (user_data (poll_github_once 100 api_bob_fails sqlite_fine ex_bot)) = [100, 50, 100]"
proof -
  have fa: "poll_fetch (Some ''owner/repo'') api_bob_fails ex_alice = Inr 10"
    by (simp add: poll_fetch_def fetch_new_points_def api_bob_fails_def ex_alice_def
        ex_pulls_def user_comments_def user_reviews_def)
  have fb: "poll_fetch (Some ''owner/repo'') api_bob_fails ex_bob = Inl (ApiError ''502 Bad Gateway'')"
    by (simp add: poll_fetch_def fetch_new_points_def api_bob_fails_def ex_bob_def)
  have fc: "poll_fetch (Some ''owner/repo'') api_bob_fails ex_carol = Inr 5"
    by (simp add: poll_fetch_def fetch_new_points_def api_bob_fails_def ex_carol_def
        ex_pulls_def user_comments_def user_reviews_def)
  have w: "last_activity_check ex_bob = 50" "last_activity_check ex_carol = 0"
    by (simp_all add: ex_bob_def ex_carol_def)
  have 1: "demo_poll_github_once 100 api_bob_fails ex_bot =
     (ex_bot\<lparr>user_data := [(1, apply_new_points 100 ex_alice 10), (2, ex_bob), (3, ex_carol)]\<rparr>,
      Some (ApiError ''502 Bad Gateway''))"
    by (simp add: demo_poll_github_once_def ex_bot_def fa fb)
  have 2: "last_global_check (fst (demo_poll_github_once 100 api_bob_fails ex_bot)) = 0"
    by (simp add: 1) (simp add: ex_bot_def)
  have 3: "user_data (poll_github_once 100 api_bob_fails sqlite_fine ex_bot) =
      [(1, apply_new_points 100 ex_alice 10), (2, ex_bob), (3, apply_new_points 100 ex_carol 5)]"
    by (simp add: poll_github_once_fields ex_bot_def polled_def fa fb fc)
  have 4: "last_global_check (poll_github_once 100 api_bob_fails sqlite_fine ex_bot) = 100"
    by (simp add: poll_github_once_fields)
  from 2 4 show ?thesis by (simp add: 1 3 apply_new_points_fields w)
qed

text \<open>
  Claim C5. A user has a challenge set (a value that Python takes as true: the test of
  the source is \<^verbatim>\<open>if data['current_challenge'] and new_points > 0\<close>) and the fetch returns
  the point delta \<open>np\<close>. If \<open>np\<close> is positive, the pass ends with the challenge cleared and
  the score increased by exactly \<open>np + 20\<close>; if \<open>np\<close> is zero, the challenge and the score
  stay as they were. The same holds for a pass of demo.py that returns.
\<close>

theorem C5_challenge_completion:
  assumes "k < length (user_data s)" and "user_data s ! k = (i, u)"
    and "truthy (current_challenge u)"
    and "poll_fetch (repo s) api u = Inr np"
  shows
    "(0 < np \<longrightarrow>
        current_challenge (snd (user_data (poll_github_once now api ok s) ! k)) = None \<and>
        points (snd (user_data (poll_github_once now api ok s) ! k)) = points u + int np + 20) \<and>
     (np = 0 \<longrightarrow>
        current_challenge (snd (user_data (poll_github_once now api ok s) ! k)) = current_challenge u \<and>
        points (snd (user_data (poll_github_once now api ok s) ! k)) = points u) \<and>
     (snd (demo_poll_github_once now api s) = None \<and> 0 < np \<longrightarrow>
        current_challenge (snd (user_data (fst (demo_poll_github_once now api s)) ! k)) = None \<and>
        points (snd (user_data (fst (demo_poll_github_once now api s)) ! k)) = points u + int np + 20) \<and>
     (snd (demo_poll_github_once now api s) = None \<and> np = 0 \<longrightarrow>
        current_challenge (snd (user_data (fst (demo_poll_github_once now api s)) ! k)) = current_challenge u \<and>
        points (snd (user_data (fst (demo_poll_github_once now api s)) ! k)) = points u)"
proof -
  have p: "polled now (repo s) api u = apply_new_points now u np"
    by (simp add: polled_Inr[OF assms(4)])
  have g: "snd (user_data (poll_github_once now api ok s) ! k) = apply_new_points now u np"
    by (simp add: poll_github_once_nth[OF assms(1,2)] p)
  have d: "snd (demo_poll_github_once now api s) = None \<Longrightarrow>
     snd (user_data (fst (demo_poll_github_once now api s)) ! k) = apply_new_points now u np"
    using demo_poll_github_once_None[of now api s] assms(1,2) p by simp
  show ?thesis
    using d by (auto simp add: g apply_new_points_fields assms(3))
qed

theorem C5_challenge_completion_witness:
  "truthy (current_challenge ex_bob) \<and>
   poll_fetch (repo ex_bot) api_ok ex_bob = Inr 15 \<and>
   current_challenge (snd (user_data (poll_github_once 100 api_ok sqlite_fine ex_bot) ! 1)) = None \<and>
   points (snd (user_data (poll_github_once 100 api_ok sqlite_fine ex_bot) ! 1)) = 80 \<and>
   snd (demo_poll_github_once 100 api_ok ex_bot) = None \<and>
   points (snd (user_data (fst (demo_poll_github_once 100 api_ok ex_bot)) ! 1)) = 80 \<and>
   poll_fetch (repo ex_bot) api_ok (ex_bob\<lparr>last_activity_check := 105\<rparr>) = Inr 0 \<and>
   points (snd (user_data (poll_github_once 100 api_ok sqlite_fine
       (ex_bot\<lparr>user_data := [(2, ex_bob\<lparr>last_activity_check := 105\<rparr>)]\<rparr>)) ! 0)) = 45 \<and>
   current_challenge (snd (user_data (poll_github_once 100 api_ok sqlite_fine
       (ex_bot\<lparr>user_data := [(2, ex_bob\<lparr>last_activity_check := 105\<rparr>)]\<rparr>)) ! 0)) = Some ''Review one PR''"
proof -
  have h1: "1 < length (user_data ex_bot)" and h2: "user_data ex_bot ! 1 = (2, ex_bob)"
    by (simp_all add: ex_bot_def)
  have h3: "truthy (current_challenge ex_bob)" by (simp add: ex_bob_def truthy_def)
  have h4: "poll_fetch (repo ex_bot) api_ok ex_bob = Inr 15"
    by (simp add: ex_bot_def poll_fetch_def fetch_new_points_def api_ok_def ex_bob_def
        ex_pulls_def user_comments_def user_reviews_def)
  have h5: "snd (demo_poll_github_once 100 api_ok ex_bot) = None"
    by (simp add: demo_poll_github_once_def ex_bot_def poll_fetch_def fetch_new_points_def
        api_ok_def ex_alice_def ex_bob_def ex_carol_def ex_pulls_def user_comments_def
        user_reviews_def split: prod.splits)
  let ?b = "ex_bob\<lparr>last_activity_check := 105\<rparr>"
  let ?s = "ex_bot\<lparr>user_data := [(2, ?b)]\<rparr>"
  have z1: "0 < length (user_data ?s)" and z2: "user_data ?s ! 0 = (2, ?b)" by simp_all
  have z3: "truthy (current_challenge ?b)" by (simp add: ex_bob_def truthy_def)
  have z4: "poll_fetch (repo ex_bot) api_ok ?b = Inr 0"
    by (simp add: ex_bot_def poll_fetch_def fetch_new_points_def api_ok_def ex_bob_def
        ex_pulls_def user_comments_def user_reviews_def)
  have z4': "poll_fetch (repo ?s) api_ok ?b = Inr 0" using z4 by simp
  have e: "points ex_bob = 45" "current_challenge ex_bob = Some ''Review one PR''"
    by (simp_all add: ex_bob_def)
  from C5_challenge_completion[OF h1 h2 h3 h4, of 100 sqlite_fine]
    C5_challenge_completion[OF z1 z2 z3 z4', of 100 sqlite_fine] h3 h4 h5 z4 e
  show ?thesis by simp
qed

text \<open>
  Claim C3 (per-user fault isolation), evaluated where it fails. Users alice, bob and
  carol are tracked in this order and the commit query for bob raises. The pass of
  demo.py stops there with the exception: alice is updated, carol is not visited although
  her fetch would have succeeded, and \<^verbatim>\<open>last_global_check\<close> keeps its old value. The
  pass of gamified\_bot.py on the same input updates alice and carol, leaves bob as he
  was and advances \<^verbatim>\<open>last_global_check\<close> (in general: lemma
  \<open>poll_github_once_fault_isolation\<close>).
\<close>

theorem C3_demo_pass_aborts:
  "demo_poll_github_once 100 api_bob_fails ex_bot =
     (ex_bot\<lparr>user_data :=
        [(1, \<lparr>github_user = ''alice'', points = 10, badges = [BRONZE], current_challenge = None,
              last_activity_check = 100\<rparr>),
         (2, ex_bob), (3, ex_carol)]\<rparr>,
      Some (ApiError ''502 Bad Gateway'')) \<and>
   last_global_check (fst (demo_poll_github_once 100 api_bob_fails ex_bot)) = 0 \<and>
   poll_fetch (repo ex_bot) api_bob_fails ex_carol = Inr 5 \<and>
   user_data (poll_github_once 100 api_bob_fails sqlite_fine ex_bot) =
     [(1, \<lparr>github_user = ''alice'', points = 10, badges = [BRONZE], current_challenge = None,
           last_activity_check = 100\<rparr>),
      (2, ex_bob),
      (3, \<lparr>github_user = ''carol'', points = 25, badges = [], current_challenge = None,
           last_activity_check = 100\<rparr>)] \<and>
   last_global_check (poll_github_once 100 api_bob_fails sqlite_fine ex_bot) = 100"
proof -
  have fa: "poll_fetch (Some ''owner/repo'') api_bob_fails ex_alice = Inr 10"
    by (simp add: poll_fetch_def fetch_new_points_def api_bob_fails_def ex_alice_def
        ex_pulls_def user_comments_def user_reviews_def)
  have fb: "poll_fetch (Some ''owner/repo'') api_bob_fails ex_bob = Inl (ApiError ''502 Bad Gateway'')"
    by (simp add: poll_fetch_def fetch_new_points_def api_bob_fails_def ex_bob_def)
  have fc: "poll_fetch (Some ''owner/repo'') api_bob_fails ex_carol = Inr 5"
    by (simp add: poll_fetch_def fetch_new_points_def api_bob_fails_def ex_carol_def
        ex_pulls_def user_comments_def user_reviews_def)
  have aa: "apply_new_points 100 ex_alice 10 =
      \<lparr>github_user = ''alice'', points = 10, badges = [BRONZE], current_challenge = None,
       last_activity_check = 100\<rparr>"
    by (simp add: apply_new_points_def update_badges_def Let_def ex_alice_def truthy_def)
  have ac: "apply_new_points 100 ex_carol 5 =
      \<lparr>github_user = ''carol'', points = 25, badges = [], current_challenge = None,
       last_activity_check = 100\<rparr>"
    by (simp add: apply_new_points_def update_badges_def Let_def ex_carol_def truthy_def)
  have g: "user_data (poll_github_once 100 api_bob_fails sqlite_fine ex_bot) =
      [(1, apply_new_points 100 ex_alice 10), (2, ex_bob), (3, apply_new_points 100 ex_carol 5)]"
    by (simp add: poll_github_once_fields ex_bot_def polled_def fa fb fc)
  have 1: "demo_poll_github_once 100 api_bob_fails ex_bot =
     (ex_bot\<lparr>user_data := [(1, apply_new_points 100 ex_alice 10), (2, ex_bob), (3, ex_carol)]\<rparr>,
      Some (ApiError ''502 Bad Gateway''))"
    by (simp add: demo_poll_github_once_def ex_bot_def fa fb)
  have 2: "last_global_check (fst (demo_poll_github_once 100 api_bob_fails ex_bot)) = 0"
    by (simp add: 1) (simp add: ex_bot_def)
  have 3: "poll_fetch (repo ex_bot) api_bob_fails ex_carol = Inr 5"
    by (simp add: ex_bot_def fc)
  have 4: "last_global_check (poll_github_once 100 api_bob_fails sqlite_fine ex_bot) = 100"
    by (simp add: poll_github_once_fields)
  from 1 2 3 4 g show ?thesis by (simp add: aa ac)
qed

text \<open>
  Claim C6 (the badges at the end of a pass reflect the score including the challenge
  bonus), evaluated where it fails. carol has score 0, no badge and an open challenge, and
  one issue comment is observed: the pass ends with score 25 and no badge, in memory and
  in the saved row, in both variants, because \<^verbatim>\<open>update_badges\<close> runs before the bonus is
  added. With 90 new points the pass ends with score 110 and without the Gold badge.
  Evaluating the badge rule on the final record would have given Bronze.
\<close>

theorem C6_badges_before_bonus:
  "user_data (poll_github_once 100 api_ok sqlite_fine ex_bot) ! 2 =
     (3, \<lparr>github_user = ''carol'', points = 25, badges = [], current_challenge = None,
          last_activity_check = 100\<rparr>) \<and>
   db (poll_github_once 100 api_ok sqlite_fine ex_bot) 3 =
     Some \<lparr>github_user = ''carol'', points = 25, badges = [], current_challenge = None,
           last_activity_check = 100\<rparr> \<and>
   user_data (fst (demo_poll_github_once 100 api_ok ex_bot)) ! 2 =
     (3, \<lparr>github_user = ''carol'', points = 25, badges = [], current_challenge = None,
          last_activity_check = 100\<rparr>) \<and>
   apply_new_points 100 ex_carol 90 =
     \<lparr>github_user = ''carol'', points = 110, badges = [BRONZE, SILVER], current_challenge = None,
      last_activity_check = 100\<rparr> \<and>
   badges (update_badges \<lparr>github_user = ''carol'', points = 25, badges = [],
      current_challenge = None, last_activity_check = 100\<rparr>) = [BRONZE]"
proof -
  have fa: "poll_fetch (Some ''owner/repo'') api_ok ex_alice = Inr 10"
    by (simp add: poll_fetch_def fetch_new_points_def api_ok_def ex_alice_def
        ex_pulls_def user_comments_def user_reviews_def)
  have fb: "poll_fetch (Some ''owner/repo'') api_ok ex_bob = Inr 15"
    by (simp add: poll_fetch_def fetch_new_points_def api_ok_def ex_bob_def
        ex_pulls_def user_comments_def user_reviews_def)
  have fc: "poll_fetch (Some ''owner/repo'') api_ok ex_carol = Inr 5"
    by (simp add: poll_fetch_def fetch_new_points_def api_ok_def ex_carol_def
        ex_pulls_def user_comments_def user_reviews_def)
  have ac: "apply_new_points 100 ex_carol 5 =
      \<lparr>github_user = ''carol'', points = 25, badges = [], current_challenge = None,
       last_activity_check = 100\<rparr>"
    by (simp add: apply_new_points_def update_badges_def Let_def ex_carol_def truthy_def)
  have 1: "user_data (poll_github_once 100 api_ok sqlite_fine ex_bot) ! 2 =
      (3, apply_new_points 100 ex_carol 5)"
    by (simp add: poll_github_once_fields ex_bot_def polled_def fc)
  have dist: "distinct (map fst (user_data ex_bot))" by (simp add: ex_bot_def)
  have 2: "db (poll_github_once 100 api_ok sqlite_fine ex_bot) 3 =
      Some (apply_new_points 100 ex_carol 5)"
    by (simp add: poll_github_once_fields(4) poll_users_snd[OF dist])
       (simp add: ex_bot_def fc sqlite_fine_def)
  have 3: "user_data (fst (demo_poll_github_once 100 api_ok ex_bot)) ! 2 =
      (3, apply_new_points 100 ex_carol 5)"
    by (simp add: demo_poll_github_once_user_data) (simp add: ex_bot_def fa fb fc)
  have 4: "apply_new_points 100 ex_carol 90 =
     \<lparr>github_user = ''carol'', points = 110, badges = [BRONZE, SILVER], current_challenge = None,
      last_activity_check = 100\<rparr>"
    by (simp add: apply_new_points_def update_badges_def Let_def ex_carol_def truthy_def
        badge_names_distinct)
  have 5: "badges (update_badges \<lparr>github_user = ''carol'', points = 25, badges = [],
      current_challenge = None, last_activity_check = 100\<rparr>) = [BRONZE]"
    by (simp add: update_badges_def Let_def)
  from 1 2 3 4 5 show ?thesis by (simp add: ac)
qed


text \<open>
  The watermark is assigned, not raised to a maximum (line 228): when a later pass starts
  with an earlier clock reading, the watermark goes back. With pass clocks 100, 50 and
  200, a review stamped 90 earns 15 points in the first pass and again in the third.
\<close>

lemma clock_going_back_recounts:
  "user_data (run_passes [(100, api_dave_early, sqlite_fine), (50, api_dave_early, sqlite_fine),
                          (200, api_dave_early, sqlite_fine)] ex_bot_dave) =
     [(4, \<lparr>github_user = ''dave'', points = 30, badges = [BRONZE], current_challenge = None,
           last_activity_check = 200\<rparr>)]"
proof -
  let ?d1 = "\<lparr>github_user = ''dave'', points = 15, badges = [BRONZE], current_challenge = None,
           last_activity_check = 100\<rparr>"
  let ?d2 = "\<lparr>github_user = ''dave'', points = 15, badges = [BRONZE], current_challenge = None,
           last_activity_check = 50\<rparr>"
  let ?d3 = "\<lparr>github_user = ''dave'', points = 30, badges = [BRONZE], current_challenge = None,
           last_activity_check = 200\<rparr>"
  have p1: "polled 100 (Some ''owner/repo'') api_dave_early ex_dave = ?d1"
    by (simp add: polled_def poll_fetch_def fetch_new_points_def api_dave_early_def ex_dave_def
        user_comments_def user_reviews_def apply_new_points_def update_badges_def Let_def truthy_def)
  have p2: "polled 50 (Some ''owner/repo'') api_dave_early ?d1 = ?d2"
    by (simp add: polled_def poll_fetch_def fetch_new_points_def api_dave_early_def
        user_comments_def user_reviews_def apply_new_points_def update_badges_def Let_def truthy_def)
  have p3: "polled 200 (Some ''owner/repo'') api_dave_early ?d2 = ?d3"
    by (simp add: polled_def poll_fetch_def fetch_new_points_def api_dave_early_def
        user_comments_def user_reviews_def apply_new_points_def update_badges_def Let_def truthy_def)
  show ?thesis
    by (simp add: poll_github_once_fields ex_bot_dave_def p1 p2 p3)
qed



text \<open>
  Claim C9 (three attempts with doubling delays on rate-limit failures, then the bounded
  failure message; any other failure returned at once as an error string), evaluated
  where it fails. When every request is answered with HTTP 429, \<^verbatim>\<open>call_gemini\<close> of demo.py
  makes one request, does not retry and returns the generic error string. \<^verbatim>\<open>call_gemini\<close>
  of gamified\_bot.py on the same input makes three requests with sleeps of 1, 2 and 4
  seconds and returns the bounded failure message, and returns a server error at once
  (in general: lemmas \<open>call_gemini_rate_limited\<close> and \<open>call_gemini_other_failure\<close>).
\<close>

theorem C9_demo_does_not_retry:
  "demo_call_gemini urlopen_429 =
     (''Error calling AI: HTTP Error 429: Too Many Requests'', [Request 0]) \<and>
   call_gemini urlopen_429 =
     (''Error: Gemini API rate limit exceeded.'',
      [Request 0, Sleep 1, Request 1, Sleep 2, Request 2, Sleep 4]) \<and>
   call_gemini urlopen_500 =
     (''Error calling AI: HTTP Error 500: Internal Server Error'', [Request 0])"
proof -
  have 1: "demo_call_gemini urlopen_429 =
     (''Error calling AI: HTTP Error 429: Too Many Requests'', [Request 0])"
    by (simp add: demo_call_gemini_def urlopen_429_def)
  have 2: "call_gemini urlopen_429 =
     (''Error: Gemini API rate limit exceeded.'',
      [Request 0, Sleep 1, Request 1, Sleep 2, Request 2, Sleep 4])"
    by (rule call_gemini_rate_limited[where ?m0.0 = "''HTTP Error 429: Too Many Requests''"
          and ?m1.0 = "''HTTP Error 429: Too Many Requests''"
          and ?m2.0 = "''HTTP Error 429: Too Many Requests''"])
       (simp_all add: urlopen_429_def)
  have 3: "call_gemini urlopen_500 =
     (''Error calling AI: HTTP Error 500: Internal Server Error'', [Request 0])"
    using call_gemini_other_failure[of urlopen_500 "''HTTP Error 500: Internal Server Error''"]
    by (simp add: urlopen_500_def)
  from 1 2 3 show ?thesis by simp
qed

section \<open>Claim about the initial watermark\<close>

text \<open>
  Claim C10. \<^verbatim>\<open>last_global_check\<close> is initialised to the clock reading \<open>t_now\<close> minus the
  seconds since the epoch \<open>t_time\<close>: when the second reading is taken at most \<open>drift\<close>
  after the first, this is within \<open>drift\<close> before the epoch (time 0). The commands leave it
  unchanged, so in every state before the first pass has finished a user linked with
  \<^verbatim>\<open>!link_github\<close> gets this value as watermark. In the pass that follows, the user is
  scored on the whole history: 10 per commit the API counts since the epoch, 5 per issue
  comment of the user it returns since the epoch, and 15 per review of the user in the
  first ten pull requests, whatever its date after the epoch and whenever the user was
  linked.
\<close>

theorem C10_epoch_watermark:
  assumes "last_global_check s = last_global_check (bot_init t_now t_time loaded dbv)
           \<or> last_global_check s = last_global_check (demo_bot_init t_now t_time)"
    and "repo s = Some nm"
    and "t_now \<le> t_time" and "t_time \<le> t_now + drift"
    and "get_commits api gh (t_now - t_time) = Inr c"
    and "get_issues_comments api (t_now - t_time) = Inr cs"
    and "get_pulls api = Inr prs"
    and "map get_reviews (take 10 prs) = map Inr rss"
    and "\<forall>r \<in> set (concat rss). 0 < submitted_at r"
  shows
    "last_global_check (bot_init t_now t_time loaded dbv) = t_now - t_time \<and>
     last_global_check (demo_bot_init t_now t_time) = t_now - t_time \<and>
     - drift \<le> t_now - t_time \<and> t_now - t_time \<le> 0 \<and>
     map_of (user_data (link_github ok a gh s)) a = Some (new_user gh (t_now - t_time)) \<and>
     map_of (user_data (demo_link_github a gh s)) a = Some (new_user gh (t_now - t_time)) \<and>
     last_global_check (link_github ok a gh s) = t_now - t_time \<and>
     last_global_check (demo_link_github a gh s) = t_now - t_time \<and>
     (\<exists>d. map_of (user_data (poll_github_once now api ok' (link_github ok a gh s))) a = Some d \<and>
          points d = 10 * int c + 5 * int (length (filter (\<lambda>x. comment_login x = gh) cs))
                       + 15 * int (length (filter (\<lambda>x. review_login x = gh) (concat rss))) \<and>
          last_activity_check d = now) \<and>
     (snd (demo_poll_github_once now api (demo_link_github a gh s)) = None \<longrightarrow>
        (\<exists>d. map_of (user_data (fst (demo_poll_github_once now api (demo_link_github a gh s)))) a
                = Some d \<and>
          points d = 10 * int c + 5 * int (length (filter (\<lambda>x. comment_login x = gh) cs))
                       + 15 * int (length (filter (\<lambda>x. review_login x = gh) (concat rss))) \<and>
          last_activity_check d = now))"
proof -
  let ?w = "t_now - t_time"
  let ?np = "c * 10 + length (filter (\<lambda>x. comment_login x = gh) cs) * 5
               + length (filter (\<lambda>x. review_login x = gh) (concat rss)) * 15"
  have i: "last_global_check (bot_init t_now t_time loaded dbv) = ?w"
    "last_global_check (demo_bot_init t_now t_time) = ?w"
    by (simp_all add: bot_init_def demo_bot_init_def)
  with assms(1) have w: "last_global_check s = ?w" by auto
  have b: "- drift \<le> ?w" "?w \<le> 0" using assms(3,4) by simp_all
  have l: "map_of (user_data (link_github ok a gh s)) a = Some (new_user gh ?w)"
    "map_of (user_data (demo_link_github a gh s)) a = Some (new_user gh ?w)"
    using link_github_lookup[OF assms(2)] demo_link_github_lookup[OF assms(2)] w by simp_all
  have k: "last_global_check (link_github ok a gh s) = ?w"
    "last_global_check (demo_link_github a gh s) = ?w"
    by (simp_all add: commands_keep_last_global_check w)
  have "filter (\<lambda>x. review_login x = gh \<and> ?w < submitted_at x) (concat rss)
          = filter (\<lambda>x. review_login x = gh) (concat rss)"
  proof (intro filter_cong refl)
    fix x assume "x \<in> set (concat rss)"
    with assms(9) have "0 < submitted_at x" by blast
    with b(2) have "?w < submitted_at x" by linarith
    then show "(review_login x = gh \<and> ?w < submitted_at x) = (review_login x = gh)" by simp
  qed
  with fetch_new_points_explicit_total[OF assms(5-8)]
  have f: "fetch_new_points api gh ?w = Inr ?np" by simp
  have pf: "poll_fetch (Some nm) api (new_user gh ?w) = Inr ?np"
    by (simp add: poll_fetch_def new_user_def f)
  have pd: "polled now (Some nm) api (new_user gh ?w) = apply_new_points now (new_user gh ?w) ?np"
    by (rule polled_Inr[OF pf])
  have pts: "points (apply_new_points now (new_user gh ?w) ?np) =
               10 * int c + 5 * int (length (filter (\<lambda>x. comment_login x = gh) cs))
                       + 15 * int (length (filter (\<lambda>x. review_login x = gh) (concat rss)))"
    and wm: "last_activity_check (apply_new_points now (new_user gh ?w) ?np) = now"
    by (simp_all add: apply_new_points_fields) (simp_all add: new_user_def truthy_def)
  have g: "map_of (user_data (poll_github_once now api ok' (link_github ok a gh s))) a
             = Some (apply_new_points now (new_user gh ?w) ?np)"
    by (simp add: poll_github_once_map_of l commands_keep_repo[OF assms(2)] pd)
  have d: "map_of (user_data (fst (demo_poll_github_once now api (demo_link_github a gh s)))) a
             = Some (apply_new_points now (new_user gh ?w) ?np)"
    if "snd (demo_poll_github_once now api (demo_link_github a gh s)) = None"
    using demo_poll_github_once_None[OF that]
    by (simp add: map_of_map l commands_keep_repo[OF assms(2)] pd)
  from i b l k g d pts wm show ?thesis by simp
qed

theorem C10_epoch_watermark_witness:
  "repo (set_repo True ''owner/repo'' (bot_init 1700000000000000 1700000000000042 [] Map.empty))
     = Some ''owner/repo'' \<and>
   (1700000000000000 :: int) \<le> 1700000000000042 \<and>
   (1700000000000042 :: int) \<le> 1700000000000000 + 100 \<and>
   get_commits api_frank ''frank'' (- 42) = Inr 2 \<and>
   length (filter (\<lambda>x. comment_login x = ''frank'') frank_comments) = 2 \<and>
   length (filter (\<lambda>x. review_login x = ''frank'') (concat frank_reviews)) = 3 \<and>
   last_global_check (bot_init 1700000000000000 1700000000000042 [] Map.empty) = - 42 \<and>
   map_of (user_data (link_github True 7 ''frank''
     (set_repo True ''owner/repo'' (bot_init 1700000000000000 1700000000000042 [] Map.empty)))) 7
     = Some \<lparr>github_user = ''frank'', points = 0, badges = [], current_challenge = None,
             last_activity_check = - 42\<rparr> \<and>
   (\<exists>d. map_of (user_data (poll_github_once 1700000300000000 api_frank sqlite_fine
            (link_github True 7 ''frank''
              (set_repo True ''owner/repo''
                (bot_init 1700000000000000 1700000000000042 [] Map.empty))))) 7 = Some d \<and>
        points d = 75 \<and> last_activity_check d = 1700000300000000) \<and>
   snd (demo_poll_github_once 1700000300000000 api_frank
          (demo_link_github 7 ''frank''
            (set_repo True ''owner/repo'' (demo_bot_init 1700000000000000 1700000000000042))))
     = None \<and>
   (\<exists>d. map_of (user_data (fst (demo_poll_github_once 1700000300000000 api_frank
            (demo_link_github 7 ''frank''
              (set_repo True ''owner/repo''
                (demo_bot_init 1700000000000000 1700000000000042)))))) 7 = Some d \<and>
        points d = 75 \<and> last_activity_check d = 1700000300000000)"
proof -
  let ?ini = "bot_init 1700000000000000 1700000000000042 [] Map.empty"
  let ?st = "set_repo True ''owner/repo'' ?ini"
  let ?dst = "set_repo True ''owner/repo'' (demo_bot_init 1700000000000000 1700000000000042)"
  have e: "(1700000000000000 :: int) - 1700000000000042 = - 42" by simp
  have h1: "last_global_check ?st = last_global_check ?ini
            \<or> last_global_check ?st = last_global_check (demo_bot_init 1700000000000000 1700000000000042)"
    by (simp add: commands_keep_last_global_check)
  have g1: "last_global_check ?dst = last_global_check ?ini
            \<or> last_global_check ?dst = last_global_check (demo_bot_init 1700000000000000 1700000000000042)"
    by (simp add: commands_keep_last_global_check)
  have h2: "repo ?st = Some ''owner/repo''" by (simp add: set_repo_def)
  have g2: "repo ?dst = Some ''owner/repo''" by (simp add: set_repo_def)
  have h3: "(1700000000000000 :: int) \<le> 1700000000000042" by simp
  have h4: "(1700000000000042 :: int) \<le> 1700000000000000 + 100" by simp
  have c: "get_commits api_frank ''frank'' (- 42) = Inr 2"
    and cs: "get_issues_comments api_frank (- 42) = Inr frank_comments"
    and h7: "get_pulls api_frank = Inr frank_pulls"
    by (simp_all add: api_frank_def)
  have h5: "get_commits api_frank ''frank'' (1700000000000000 - 1700000000000042) = Inr 2"
    and h6: "get_issues_comments api_frank (1700000000000000 - 1700000000000042) = Inr frank_comments"
    using c cs by (simp_all only: e)
  have h8: "map get_reviews (take 10 frank_pulls) = map Inr frank_reviews"
    by (simp add: frank_pulls_def frank_reviews_def)
  have h9: "\<forall>r \<in> set (concat frank_reviews). 0 < submitted_at r"
    by (simp add: frank_reviews_def)
  have m: "length (filter (\<lambda>x. comment_login x = ''frank'') frank_comments) = 2"
    by (simp add: frank_comments_def)
  have r: "length (filter (\<lambda>x. review_login x = ''frank'') (concat frank_reviews)) = 3"
    by (simp add: frank_reviews_def)
  have n: "new_user ''frank'' (- 42) = \<lparr>github_user = ''frank'', points = 0, badges = [],
      current_challenge = None, last_activity_check = - 42\<rparr>"
    by (simp add: new_user_def)
  have f: "fetch_new_points api_frank ''frank'' (- 42) = Inr 75"
    using fetch_new_points_explicit_total[OF c cs h7 h8]
    by (simp add: frank_comments_def frank_reviews_def)
  have dn: "snd (demo_poll_github_once 1700000300000000 api_frank
              (demo_link_github 7 ''frank'' ?dst)) = None"
    by (simp add: demo_poll_github_once_def demo_link_github_def set_repo_def demo_bot_init_def
        poll_fetch_def new_user_def f)
  note t = C10_epoch_watermark[OF h1 h2 h3 h4 h5 h6 h7 h8 h9,
      of True 7 1700000300000000 sqlite_fine]
  note td = C10_epoch_watermark[OF g1 g2 h3 h4 h5 h6 h7 h8 h9,
      of True 7 1700000300000000 sqlite_fine]
  from t have "last_global_check ?ini = 1700000000000000 - 1700000000000042"
    and "map_of (user_data (link_github True 7 ''frank'' ?st)) 7
          = Some (new_user ''frank'' (1700000000000000 - 1700000000000042))"
    by blast+
  then have i: "last_global_check ?ini = - 42"
    and l: "map_of (user_data (link_github True 7 ''frank'' ?st)) 7 = Some (new_user ''frank'' (- 42))"
    by (simp_all only: e)
  from t have "\<exists>d. map_of (user_data (poll_github_once 1700000300000000 api_frank sqlite_fine
            (link_github True 7 ''frank'' ?st))) 7 = Some d \<and>
        points d = 10 * int 2 + 5 * int (length (filter (\<lambda>x. comment_login x = ''frank'') frank_comments))
                     + 15 * int (length (filter (\<lambda>x. review_login x = ''frank'') (concat frank_reviews))) \<and>
        last_activity_check d = 1700000300000000"
    by blast
  then have p: "\<exists>d. map_of (user_data (poll_github_once 1700000300000000 api_frank sqlite_fine
            (link_github True 7 ''frank'' ?st))) 7 = Some d \<and>
        points d = 75 \<and> last_activity_check d = 1700000300000000"
    by (simp only: m r) simp
  from td dn have "\<exists>d. map_of (user_data (fst (demo_poll_github_once 1700000300000000 api_frank
            (demo_link_github 7 ''frank'' ?dst)))) 7 = Some d \<and>
        points d = 10 * int 2 + 5 * int (length (filter (\<lambda>x. comment_login x = ''frank'') frank_comments))
                     + 15 * int (length (filter (\<lambda>x. review_login x = ''frank'') (concat frank_reviews))) \<and>
        last_activity_check d = 1700000300000000"
    by blast
  then have q: "\<exists>d. map_of (user_data (fst (demo_poll_github_once 1700000300000000 api_frank
            (demo_link_github 7 ''frank'' ?dst)))) 7 = Some d \<and>
        points d = 75 \<and> last_activity_check d = 1700000300000000"
    by (simp only: m r) simp
  from h2 h3 h4 c m r i l p dn q show ?thesis by (simp only: n)
qed

end
